theory Spec2Isabelle
  imports Complex_Main
begin

section \<open>Catalog rows\<close>

text \<open>
  The catalog is a flat array of rows
  \<^verbatim>\<open>[desc, gross, dc, codes_str, drug_u, drug_t, setting, min, max]\<close>, read through the
  index constants \<^verbatim>\<open>I.DESC\<close> .. \<^verbatim>\<open>I.MAX\<close>. A row is a record with one field per
  position (\<^verbatim>\<open>MIN\<close> and \<^verbatim>\<open>MAX\<close> are binders of HOL, so these two fields are \<open>MIN_RATE\<close>
  and \<open>MAX_RATE\<close>). A position holding \<^verbatim>\<open>null\<close> (or missing) is \<open>None\<close>. Amounts are JSON
  numbers, which are finite; they are modelled as rationals, so that the only falsy
  amounts are \<^verbatim>\<open>null\<close> and \<open>0\<close>. Rounding of binary floating point is not modelled.
\<close>

type_synonym amount = rat

record row =
  DESC :: "string option"
  GROSS :: "amount option"
  DC :: "amount option"
  CODES :: "string option"
  DRUG_U :: "amount option"
  DRUG_T :: "string option"
  SETTING :: "string option"
  MIN_RATE :: "amount option"
  MAX_RATE :: "amount option"

text \<open>A row of nulls, the base of the concrete rows used below.\<close>

definition null_row :: row where
  "null_row =
     \<lparr>DESC = None, GROSS = None, DC = None, CODES = None, DRUG_U = None, DRUG_T = None,
      SETTING = None, MIN_RATE = None, MAX_RATE = None\<rparr>"

section \<open>Price resolution\<close>

text \<open>
  JavaScript truthiness of a number-or-null value, and the operator \<^verbatim>\<open>a || b\<close> on such
  values: the left operand when it is truthy, the right operand otherwise.
\<close>

definition truthy :: "amount option \<Rightarrow> bool" where
  "truthy v = (case v of None \<Rightarrow> False | Some x \<Rightarrow> x \<noteq> 0)"

definition js_or :: "amount option \<Rightarrow> amount option \<Rightarrow> amount option" where
  "js_or a b = (if truthy a then a else b)"

text \<open>
  \<^verbatim>\<open>getItemPrice(row, itemIndex)\<close> reads two fields of the application object:
  \<^verbatim>\<open>this.priceType\<close> (a string) and \<^verbatim>\<open>this.currentPayerRates\<close> (\<^verbatim>\<open>null\<close> until a payer
  file is loaded, then the parsed JSON object, keyed by item index). They are the first
  two arguments here. \<^verbatim>\<open>itemIndex\<close> may be \<^verbatim>\<open>undefined\<close> (\<open>None\<close>). The result \<open>None\<close> is the
  \<^verbatim>\<open>null\<close> the source returns for an item the payer has no rate for.

  \<^verbatim>\<open>
  if (this.priceType === 'payer' && this.currentPayerRates && itemIndex !== undefined) {
      const rate = this.currentPayerRates[String(itemIndex)];
      if (rate !== undefined) return rate;
      return null;
  }
  if (this.priceType === 'discounted_cash') {
      return row[I.DC] || row[I.GROSS] || 0;
  }
  return row[I.GROSS] || 0;
  \<close>
  The older object-based variant of the file has the same body over \<^verbatim>\<open>item.dc\<close> and
  \<^verbatim>\<open>item.g\<close>.
\<close>

definition getItemPrice ::
  "string \<Rightarrow> (nat \<rightharpoonup> amount) option \<Rightarrow> row \<Rightarrow> nat option \<Rightarrow> amount option" where
  "getItemPrice priceType currentPayerRates r itemIndex =
     (case (priceType = ''payer'', currentPayerRates, itemIndex) of
        (True, Some rates, Some i) \<Rightarrow>
          (case rates i of Some rate \<Rightarrow> Some rate | None \<Rightarrow> None)
      | _ \<Rightarrow>
          if priceType = ''discounted_cash''
          then js_or (js_or (DC r) (GROSS r)) (Some 0)
          else js_or (GROSS r) (Some 0))"

section \<open>Per-unit price of a drug package\<close>

text \<open>
  \<^verbatim>\<open>DrugParser.DRUG_TYPE_MAP\<close>, in the order the object literal lists it.
\<close>

definition DRUG_TYPE_MAP :: "(string \<times> string) list" where
  "DRUG_TYPE_MAP =
     [(''ME'', ''mg''), (''ML'', ''mL''), (''GM'', ''g''), (''UN'', ''units''), (''EA'', ''ea'')]"

text \<open>
  The table is a plain object literal, so \<^verbatim>\<open>DRUG_TYPE_MAP[drugT]\<close> also finds the properties
  every object inherits from \<^verbatim>\<open>Object.prototype\<close>. These are their names; each is bound to a
  function (\<^verbatim>\<open>__proto__\<close> to the prototype object), which is truthy.
\<close>

definition Object_prototype_names :: "string list" where
  "Object_prototype_names =
     [''constructor'', ''__defineGetter__'', ''__defineSetter__'', ''hasOwnProperty'',
      ''__lookupGetter__'', ''__lookupSetter__'', ''isPrototypeOf'', ''propertyIsEnumerable'',
      ''toString'', ''valueOf'', ''__proto__'', ''toLocaleString'']"

text \<open>
  The value of \<^verbatim>\<open>DRUG_TYPE_MAP[drugT] || drugT\<close>: a text (a label of the table, which is
  never empty, or the code itself), or the inherited property of that name.
\<close>

datatype js_label = Text string | Inherited string

definition typeLabel :: "string \<Rightarrow> js_label" where
  "typeLabel drugT =
     (case map_of DRUG_TYPE_MAP drugT of
        Some l \<Rightarrow> Text l
      | None \<Rightarrow> if drugT \<in> set Object_prototype_names then Inherited drugT else Text drugT)"

record unit_price =
  pricePerUnit :: amount
  unitLabel :: js_label

text \<open>
  \<^verbatim>\<open>
  static calculateUnitPrice(row, price) {
      const drugU = row[I.DRUG_U];
      const drugT = row[I.DRUG_T];
      if (!drugU || !drugT || !price) return null;
      const typeLabel = this.DRUG_TYPE_MAP[drugT] || drugT;
      if (drugU > 1) {
          return { pricePerUnit: price / drugU, unitLabel: typeLabel };
      }
      return null;
  }
  \<close>
  \<open>price\<close> is what \<open>getItemPrice\<close> returned: \<open>None\<close> is \<^verbatim>\<open>null\<close>. A string is falsy when
  it is \<^verbatim>\<open>null\<close> or empty. The division is exact here.
\<close>

definition calculateUnitPrice :: "row \<Rightarrow> amount option \<Rightarrow> unit_price option" where
  "calculateUnitPrice r price =
     (case (DRUG_U r, DRUG_T r, price) of
        (Some drugU, Some drugT, Some p) \<Rightarrow>
          if drugU = 0 \<or> drugT = [] \<or> p = 0 then None
          else if drugU > 1
               then Some \<lparr>pricePerUnit = p / drugU, unitLabel = typeLabel drugT\<rparr>
               else None
      | _ \<Rightarrow> None)"

text \<open>
  The older object-based variant of the file keeps the package under \<^verbatim>\<open>item.drug\<close> as
  \<^verbatim>\<open>{u, t}\<close> and always answers for an item with a package and a truthy price:
  \<^verbatim>\<open>
  static calculateUnitPrice(item, price) {
      if (!item.drug || !price) return null;
      const drugUnit = item.drug.u;
      const drugType = item.drug.t;
      const typeLabel = this.DRUG_TYPE_MAP[drugType] || drugType;
      if (drugUnit && drugUnit > 1) {
          return { pricePerUnit: price / drugUnit, packageInfo: ..., unitLabel: typeLabel };
      }
      return { pricePerUnit: price, packageInfo: ..., unitLabel: typeLabel };
  }
  \<close>
  Its caller shows the per-unit price only when \<^verbatim>\<open>item.drug.u > 1\<close>. The display string
  \<^verbatim>\<open>packageInfo\<close> is left out.
\<close>

definition calculateUnitPrice_v1 ::
  "(amount option \<times> string) option \<Rightarrow> amount option \<Rightarrow> unit_price option" where
  "calculateUnitPrice_v1 drug price =
     (case (drug, price) of
        (Some (u, t), Some p) \<Rightarrow>
          if p = 0 then None
          else (case u of
                  Some drugUnit \<Rightarrow>
                    if drugUnit > 1
                    then Some \<lparr>pricePerUnit = p / drugUnit, unitLabel = typeLabel t\<rparr>
                    else Some \<lparr>pricePerUnit = p, unitLabel = typeLabel t\<rparr>
                | None \<Rightarrow> Some \<lparr>pricePerUnit = p, unitLabel = typeLabel t\<rparr>)
      | _ \<Rightarrow> None)"

section \<open>Strings\<close>











section \<open>Search\<close>











section \<open>Cart\<close>

text \<open>
  \<^verbatim>\<open>this.cart\<close> is an array of entries \<^verbatim>\<open>{ idx, qty }\<close>. Item indices are array indices of
  the catalog; quantities are integers. An operation that throws leaves the cart as it
  was: the exception ends the event handler.
\<close>

record cart_entry =
  idx :: nat
  qty :: int

type_synonym cart = "cart_entry list"

datatype js_error = TypeError | SyntaxError | SecurityError

text \<open>\<^verbatim>\<open>xs.findIndex(P)\<close>: the first position whose element satisfies \<open>P\<close>, or \<open>-1\<close>.\<close>

fun findIndex :: "('a \<Rightarrow> bool) \<Rightarrow> 'a list \<Rightarrow> int" where
  "findIndex P [] = -1"
| "findIndex P (x # xs) =
     (if P x then 0 else (let k = findIndex P xs in if k = -1 then -1 else k + 1))"

text \<open>
  \<^verbatim>\<open>
  addToCart(itemIndex) {
      if (!this.items[itemIndex]) return;
      const existing = this.cart.findIndex(c => c.idx === itemIndex);
      if (existing !== -1) {
          this.cart[existing].qty++;
      } else {
          this.cart.push({ idx: itemIndex, qty: 1 });
      }
      ...
  }
  \<close>
  A row is an array and so truthy: \<^verbatim>\<open>this.items[itemIndex]\<close> is falsy exactly when the
  index is outside the catalog.
\<close>

definition addToCart :: "row list \<Rightarrow> nat \<Rightarrow> cart \<Rightarrow> cart" where
  "addToCart items itemIndex c =
     (if \<not> itemIndex < length items then c
      else let existing = findIndex (\<lambda>e. idx e = itemIndex) c in
        if existing \<noteq> -1
        then c[nat existing := (c ! nat existing)\<lparr>qty := qty (c ! nat existing) + 1\<rparr>]
        else c @ [\<lparr>idx = itemIndex, qty = 1\<rparr>])"

text \<open>
  \<^verbatim>\<open>xs.splice(start, 1)\<close>: a negative \<open>start\<close> counts from the end (and stops at 0), a
  \<open>start\<close> beyond the end removes nothing.
\<close>

definition splice1 :: "int \<Rightarrow> 'a list \<Rightarrow> 'a list" where
  "splice1 start xs =
     (let n = int (length xs);
          s = (if start < 0 then max (n + start) 0 else min start n)
      in take (nat s) xs @ drop (nat s + 1) xs)"

definition removeFromCart :: "int \<Rightarrow> cart \<Rightarrow> cart" where
  "removeFromCart cartIndex c = splice1 cartIndex c"

text \<open>
  \<^verbatim>\<open>
  updateQuantity(cartIndex, delta) {
      const newQty = this.cart[cartIndex].qty + delta;
      if (newQty <= 0) {
          this.removeFromCart(cartIndex);
      } else {
          this.cart[cartIndex].qty = newQty;
          ...
      }
  }
  \<close>
  Outside the cart \<^verbatim>\<open>this.cart[cartIndex]\<close> is \<^verbatim>\<open>undefined\<close> and reading its \<^verbatim>\<open>qty\<close> throws
  a \<^verbatim>\<open>TypeError\<close>.
\<close>

definition updateQuantity :: "int \<Rightarrow> int \<Rightarrow> cart \<Rightarrow> js_error + cart" where
  "updateQuantity cartIndex delta c =
     (if cartIndex < 0 \<or> int (length c) \<le> cartIndex then Inl TypeError
      else let newQty = qty (c ! nat cartIndex) + delta in
        if newQty \<le> 0 then Inr (removeFromCart cartIndex c)
        else Inr (c[nat cartIndex := (c ! nat cartIndex)\<lparr>qty := newQty\<rparr>]))"

text \<open>A sequence of cart operations, run from left to right.\<close>

datatype cart_op = Add nat | Remove int | ChangeQuantity int int

fun apply_op :: "row list \<Rightarrow> cart \<Rightarrow> cart_op \<Rightarrow> cart" where
  "apply_op items c (Add itemIndex) = addToCart items itemIndex c"
| "apply_op items c (Remove cartIndex) = removeFromCart cartIndex c"
| "apply_op items c (ChangeQuantity cartIndex delta) =
     (case updateQuantity cartIndex delta c of Inl e \<Rightarrow> c | Inr c' \<Rightarrow> c')"

definition run_ops :: "row list \<Rightarrow> cart \<Rightarrow> cart_op list \<Rightarrow> cart" where
  "run_ops items c ops = foldl (apply_op items) c ops"

text \<open>The cart invariant: no two entries share an item index, every quantity is at least 1.\<close>

definition cart_inv :: "cart \<Rightarrow> bool" where
  "cart_inv c = (distinct (map idx c) \<and> list_all (\<lambda>e. 1 \<le> qty e) c)"

section \<open>Restoring the cart and the pricing mode\<close>

text \<open>
  The values \<^verbatim>\<open>JSON.parse\<close> returns. \<^verbatim>\<open>saveCartToStorage\<close> writes
  \<^verbatim>\<open>JSON.stringify(this.cart)\<close>, an array of \<^verbatim>\<open>{"idx": .., "qty": ..}\<close> objects, which
  \<open>cart_to_json\<close> builds, and the pricing mode as it is.
\<close>

datatype json =
    JNull
  | JBool bool
  | JNum rat
  | JStr string
  | JArr "json list"
  | JObj "(string \<times> json) list"


text \<open>
  The two fields of the application object that are restored. \<^verbatim>\<open>this.cart\<close> is whatever
  \<^verbatim>\<open>JSON.parse\<close> returned, so it is a JSON value here. The constructor sets the empty cart
  and the pricing mode \<^verbatim>\<open>'gross'\<close>.
\<close>

record app_state =
  cart :: json
  priceType :: string







section \<open>Properties of price resolution\<close>

lemma js_or_zero: "js_or a (Some 0) = Some (case a of None \<Rightarrow> 0 | Some x \<Rightarrow> x)"
  by (cases a) (auto simp: js_or_def truthy_def)

text \<open>
  Claim C1. In payer mode with a loaded rate table, the price of item \<open>i\<close> is the table's
  entry for \<open>i\<close>: the rate when the key is present, a rate of zero included, and \<open>None\<close>
  (not contracted) when the key is absent, whatever the row's gross charge is.
\<close>

theorem payer_mode_returns_table_entry:
  "getItemPrice ''payer'' (Some rates) r (Some i) = rates i
   \<and> getItemPrice ''payer'' (Some (rates(i \<mapsto> 0))) r (Some i) = Some 0
   \<and> getItemPrice ''payer'' (Some (rates(i := None))) (r\<lparr>GROSS := Some g\<rparr>) (Some i) = None"
  by (simp add: getItemPrice_def split: option.split)

text \<open>
  Claim C2, as the code has it. In discounted-cash mode the price is the discounted cash
  price when that is defined and not zero; otherwise the gross charge when that is
  defined; otherwise 0. A discounted cash price of zero is falsy for \<^verbatim>\<open>||\<close> and falls
  through to the gross charge. With no discounted cash price and a gross charge of 100
  the price is 100.
\<close>

theorem discounted_cash_price:
  "getItemPrice ''discounted_cash'' rates r ix =
     Some (case DC r of
             Some d \<Rightarrow> if d \<noteq> 0 then d else (case GROSS r of Some g \<Rightarrow> g | None \<Rightarrow> 0)
           | None \<Rightarrow> (case GROSS r of Some g \<Rightarrow> g | None \<Rightarrow> 0))
   \<and> getItemPrice ''discounted_cash'' rates (r\<lparr>DC := None, GROSS := Some 100\<rparr>) ix = Some 100"
  by (simp add: getItemPrice_def js_or_zero js_or_def truthy_def
      split: option.split prod.split bool.split)

theorem discounted_cash_price_witness:
  "getItemPrice ''discounted_cash'' None
     (null_row\<lparr>GROSS := Some 100, DC := Some 80\<rparr>) (Some 0) = Some 80"
  using discounted_cash_price
      [where rates = None and r = "null_row\<lparr>GROSS := Some 100, DC := Some 80\<rparr>"
         and ix = "Some 0"]
  by (simp add: null_row_def)

text \<open>
  Claim C2 as stated fails: an item whose discounted cash price is defined as 0 and whose
  gross charge is 100 is priced at 100, not at 0.
\<close>

theorem discounted_cash_zero_counterexample:
  "getItemPrice ''discounted_cash'' None
     (null_row\<lparr>GROSS := Some 100, DC := Some 0\<rparr>) (Some 0) = Some 100
   \<and> getItemPrice ''discounted_cash'' None
     (null_row\<lparr>GROSS := Some 100, DC := Some 0\<rparr>) (Some 0) \<noteq> Some 0"
  by (simp add: getItemPrice_def js_or_def truthy_def null_row_def)

text \<open>
  Claim C10. In payer mode with no rate table loaded (\<^verbatim>\<open>currentPayerRates\<close> is \<^verbatim>\<open>null\<close>),
  the price is never \<open>None\<close>: it is the gross charge when that is defined, else 0, for
  every item index.
\<close>

theorem payer_mode_without_table_is_gross:
  "getItemPrice ''payer'' None r ix = Some (case GROSS r of Some g \<Rightarrow> g | None \<Rightarrow> 0)
   \<and> getItemPrice ''payer'' None r ix \<noteq> None"
  by (simp add: getItemPrice_def js_or_zero split: option.split)

section \<open>Properties of the per-unit price\<close>

lemma typeLabel_table:
  "typeLabel ''ME'' = Text ''mg''" "typeLabel ''ML'' = Text ''mL''"
  "typeLabel ''GM'' = Text ''g''" "typeLabel ''UN'' = Text ''units''"
  "typeLabel ''EA'' = Text ''ea''"
  by (simp_all add: typeLabel_def DRUG_TYPE_MAP_def)

lemma typeLabel_unrecognized:
  "drugT \<notin> set [''ME'', ''ML'', ''GM'', ''UN'', ''EA''] \<Longrightarrow>
   drugT \<notin> set Object_prototype_names \<Longrightarrow> typeLabel drugT = Text drugT"
  by (simp add: typeLabel_def DRUG_TYPE_MAP_def)

text \<open>
  Claim C4, as the code has it. For a row with a drug package (units \<open>u\<close> and a unit type
  \<open>t\<close>) and a resolved price, \<open>calculateUnitPrice\<close> returns the price divided by the units,
  labelled through the table, exactly when \<open>u > 1\<close>, the unit type is not empty and the
  price is an amount other than zero; otherwise it returns no per-unit price. A price of
  zero and a missing payer rate are falsy for the guard \<^verbatim>\<open>!price\<close>. The label of a code
  outside the table is the code itself, unless the code names a property that the table
  inherits as an object: then it is that inherited value.
\<close>

theorem calculateUnitPrice_spec:
  "calculateUnitPrice (r\<lparr>DRUG_U := Some u, DRUG_T := Some t\<rparr>) price =
     (if u > 1 \<and> t \<noteq> [] \<and> price \<noteq> None \<and> price \<noteq> Some 0
      then Some \<lparr>pricePerUnit = the price / u, unitLabel = typeLabel t\<rparr>
      else None)
   \<and> typeLabel t =
       (if t = ''ME'' then Text ''mg'' else if t = ''ML'' then Text ''mL''
        else if t = ''GM'' then Text ''g'' else if t = ''UN'' then Text ''units''
        else if t = ''EA'' then Text ''ea''
        else if t \<in> set Object_prototype_names then Inherited t else Text t)"
  by (auto simp: calculateUnitPrice_def typeLabel_def DRUG_TYPE_MAP_def split: option.split)

theorem calculateUnitPrice_spec_witness:
  "calculateUnitPrice
     (null_row\<lparr>GROSS := Some 50, DRUG_U := Some 10, DRUG_T := Some ''ME''\<rparr>) (Some 50)
   = Some \<lparr>pricePerUnit = 5, unitLabel = Text ''mg''\<rparr>
   \<and> calculateUnitPrice
     (null_row\<lparr>GROSS := Some 50, DRUG_U := Some 1, DRUG_T := Some ''XY''\<rparr>) (Some 50) = None
   \<and> typeLabel ''XY'' = Text ''XY''"
  using calculateUnitPrice_spec
      [where r = "null_row\<lparr>GROSS := Some 50\<rparr>" and u = 10 and t = "''ME''" and price = "Some 50"]
    calculateUnitPrice_spec
      [where r = "null_row\<lparr>GROSS := Some 50\<rparr>" and u = 1 and t = "''XY''" and price = "Some 50"]
  by (simp add: Object_prototype_names_def)

text \<open>
  Claim C4 as stated fails: a package of 10 mg priced at zero has more than one unit, and
  no per-unit price is returned for it.
\<close>

theorem calculateUnitPrice_zero_price_counterexample:
  "calculateUnitPrice
     (null_row\<lparr>GROSS := Some 0, DRUG_U := Some 10, DRUG_T := Some ''ME''\<rparr>) (Some 0) = None"
  by (simp add: calculateUnitPrice_def null_row_def)

text \<open>
  The older variant does answer for a single-unit package, with the undivided price.
\<close>

lemma typeLabel_inherited: "typeLabel ''constructor'' = Inherited ''constructor''"
  by (simp add: typeLabel_def DRUG_TYPE_MAP_def Object_prototype_names_def)

lemma calculateUnitPrice_v1_single_unit:
  "calculateUnitPrice_v1 (Some (Some 1, ''EA'')) (Some 50)
     = Some \<lparr>pricePerUnit = 50, unitLabel = Text ''ea''\<rparr>"
  by (simp add: calculateUnitPrice_v1_def typeLabel_table)

section \<open>Properties of the search\<close>








section \<open>Properties of the cart\<close>

lemma findIndex_neg: "findIndex P xs = -1 \<longleftrightarrow> (\<forall>x\<in>set xs. \<not> P x)"
proof (induction xs)
  case Nil then show ?case by simp
next
  case (Cons x xs)
  have "findIndex P xs \<ge> -1" for xs :: "'a list"
    by (induction xs) (auto simp: Let_def)
  then have "findIndex P xs + 1 \<noteq> -1" by (smt (verit))
  with Cons show ?case by (auto simp: Let_def)
qed

lemma findIndex_range: "findIndex P xs \<noteq> -1 \<Longrightarrow> 0 \<le> findIndex P xs \<and> nat (findIndex P xs) < length xs \<and> P (xs ! nat (findIndex P xs))"
proof (induction xs)
  case Nil then show ?case by simp
next
  case (Cons x xs)
  then show ?case
    by (auto simp: Let_def nat_add_distrib split: if_splits)
qed

lemma map_idx_qty_update: "k < length c \<Longrightarrow> map idx (c[k := (c ! k)\<lparr>qty := q\<rparr>]) = map idx c"
  by (simp add: map_update list_update_same_conv)

lemma cart_inv_update:
  "cart_inv c \<Longrightarrow> k < length c \<Longrightarrow> 1 \<le> q \<Longrightarrow> cart_inv (c[k := (c ! k)\<lparr>qty := q\<rparr>])"
  unfolding cart_inv_def
  by (auto simp: map_idx_qty_update list_all_iff dest!: set_update_subset_insert[THEN subsetD])

lemma cart_inv_splice1: "cart_inv c \<Longrightarrow> cart_inv (splice1 k c)"
proof -
  assume a: "cart_inv c"
  have d: "distinct (map idx (take m c @ drop (m + 1) c))" for m
  proof -
    have "distinct (map idx (take m c) @ map idx (drop m c))"
      using a by (simp add: cart_inv_def flip: map_append)
    then have "distinct (map idx (take m c) @ tl (map idx (drop m c)))"
      by (cases "map idx (drop m c)") auto
    moreover have "drop (m + 1) c = tl (drop m c)"
      by (simp add: drop_Suc tl_drop)
    ultimately show ?thesis
      by (simp add: map_tl)
  qed
  have "set (take m c @ drop (m + 1) c) \<subseteq> set c" for m
    by (auto dest: in_set_takeD in_set_dropD)
  with a have "list_all (\<lambda>e. 1 \<le> qty e) (take m c @ drop (m + 1) c)" for m
    unfolding cart_inv_def list_all_iff by blast
  with d show ?thesis by (simp add: cart_inv_def splice1_def Let_def)
qed

lemma cart_inv_addToCart: "cart_inv c \<Longrightarrow> cart_inv (addToCart items i c)"
proof -
  assume a: "cart_inv c"
  show ?thesis
  proof (cases "findIndex (\<lambda>e. idx e = i) c = -1")
    case True
    then have "i \<notin> set (map idx c)" by (auto simp: findIndex_neg)
    with a True show ?thesis by (auto simp: addToCart_def cart_inv_def)
  next
    case False
    from findIndex_range[OF False] have k: "nat (findIndex (\<lambda>e. idx e = i) c) < length c" by simp
    then have "1 \<le> qty (c ! nat (findIndex (\<lambda>e. idx e = i) c))"
      using a by (auto simp: cart_inv_def list_all_length)
    then have "1 \<le> qty (c ! nat (findIndex (\<lambda>e. idx e = i) c)) + 1" by simp
    from cart_inv_update[OF a k this] False a show ?thesis by (simp add: addToCart_def Let_def)
  qed
qed

lemma cart_inv_apply_op: "cart_inv c \<Longrightarrow> cart_inv (apply_op items c op)"
proof (cases op)
  case (Add i)
  assume "cart_inv c" with Add show ?thesis by (simp add: cart_inv_addToCart)
next
  case (Remove k)
  assume "cart_inv c" with Remove show ?thesis by (simp add: removeFromCart_def cart_inv_splice1)
next
  case (ChangeQuantity k d)
  assume a: "cart_inv c"
  show ?thesis
  proof (cases "k < 0 \<or> int (length c) \<le> k")
    case True
    with a ChangeQuantity show ?thesis by (simp add: updateQuantity_def)
  next
    case False
    then have kl: "nat k < length c" by auto
    show ?thesis
    proof (cases "qty (c ! nat k) + d \<le> 0")
      case True
      with False a ChangeQuantity show ?thesis
        by (simp add: updateQuantity_def removeFromCart_def cart_inv_splice1)
    next
      case F2: False
      then have "1 \<le> qty (c ! nat k) + d" by simp
      from cart_inv_update[OF a kl this] False F2 ChangeQuantity show ?thesis
        by (simp add: updateQuantity_def)
    qed
  qed
qed

lemma cart_inv_run_ops: "cart_inv c \<Longrightarrow> cart_inv (run_ops items c ops)"
  unfolding run_ops_def
  by (induction ops arbitrary: c) (simp_all add: cart_inv_apply_op)

text \<open>
  Claim C5. After every finite sequence of add, remove and change-quantity operations
  from the empty cart, no two entries share an item index and every entry has a quantity
  of at least 1. Adding item 5 twice (in a catalog that has an item 5) gives one entry
  for index 5 with quantity 2, and changing its quantity by \<open>-2\<close> removes it. A change
  whose new quantity would be 0 or less removes the entry at that position.
\<close>

theorem cart_invariant:
  "cart_inv (run_ops items [] ops)
   \<and> cart_inv (run_ops items [] ops) =
       (distinct (map idx (run_ops items [] ops)) \<and> (\<forall>e\<in>set (run_ops items [] ops). 1 \<le> qty e))
   \<and> (5 < length items \<longrightarrow>
        run_ops items [] [Add 5, Add 5] = [\<lparr>idx = 5, qty = 2\<rparr>]
        \<and> run_ops items [] [Add 5, Add 5, ChangeQuantity 0 (-2)] = [])
   \<and> (0 \<le> k \<and> k < int (length c) \<and> qty (c ! nat k) + d \<le> 0 \<longrightarrow>
        updateQuantity k d c = Inr (removeFromCart k c)
        \<and> removeFromCart k c = take (nat k) c @ drop (nat k + 1) c)"
proof -
  have "cart_inv []" by (simp add: cart_inv_def)
  then have 1: "cart_inv (run_ops items [] ops)" by (rule cart_inv_run_ops)
  have 2: "cart_inv (run_ops items [] ops) =
       (distinct (map idx (run_ops items [] ops)) \<and> (\<forall>e\<in>set (run_ops items [] ops). 1 \<le> qty e))"
    by (simp add: cart_inv_def list_all_iff)
  have 3: "run_ops items [] [Add 5, Add 5] = [\<lparr>idx = 5, qty = 2\<rparr>]
        \<and> run_ops items [] [Add 5, Add 5, ChangeQuantity 0 (-2)] = []" if "5 < length items"
    using that by (simp add: run_ops_def addToCart_def updateQuantity_def removeFromCart_def splice1_def)
  have 4: "updateQuantity k d c = Inr (removeFromCart k c)
        \<and> removeFromCart k c = take (nat k) c @ drop (nat k + 1) c"
    if "0 \<le> k \<and> k < int (length c) \<and> qty (c ! nat k) + d \<le> 0"
    using that by (auto simp: updateQuantity_def removeFromCart_def splice1_def Let_def min_def)
  from 1 2 3 4 show ?thesis by blast
qed


theorem cart_invariant_witness:
  "cart_inv (run_ops (replicate 6 null_row) [] [Add 5, Add 2, ChangeQuantity 1 3, Remove 0])
   \<and> run_ops (replicate 6 null_row) [] [Add 5, Add 2, ChangeQuantity 1 3, Remove 0]
       = [\<lparr>idx = 2, qty = 4\<rparr>]
   \<and> run_ops (replicate 6 null_row) [] [Add 5, Add 5] = [\<lparr>idx = 5, qty = 2\<rparr>]
   \<and> run_ops (replicate 6 null_row) [] [Add 5, Add 5, ChangeQuantity 0 (-2)] = []
   \<and> updateQuantity 0 (-2) [\<lparr>idx = 5, qty = 2\<rparr>] = Inr []"
proof -
  have r: "run_ops (replicate 6 null_row) [] [Add 5, Add 2, ChangeQuantity 1 3, Remove 0]
       = [\<lparr>idx = 2, qty = 4\<rparr>]"
    by (simp add: run_ops_def addToCart_def updateQuantity_def removeFromCart_def splice1_def)
  have rm: "removeFromCart 0 [\<lparr>idx = 5, qty = 2\<rparr>] = []"
    by (simp add: removeFromCart_def splice1_def)
  show ?thesis
    using cart_invariant [where items = "replicate 6 null_row"
        and ops = "[Add 5, Add 2, ChangeQuantity 1 3, Remove 0]"
        and k = 0 and d = "-2" and c = "[\<lparr>idx = 5, qty = 2\<rparr>]"] r rm
    by simp
qed

section \<open>Properties of the restore\<close>




end
